theory Spec2Isabelle
  imports Main "HOL-Library.Sublist"
begin

section \<open>Go values\<close>

text \<open>
  The server keeps request ids, parameters and results in Go's \<open>interface{}\<close>. The values
  that occur are those \<open>encoding/json\<close> decodes into (nil, bool, float64, string, slice,
  \<open>map[string]interface{}\<close>) and the two slices of structs the list handlers build
  (\<open>[]Tool\<close>, \<open>[]Resource\<close>). \<open>VNil\<close> is the nil interface, which is also what a JSON
  \<open>null\<close> decodes to. A slice of maps (\<open>[]map[string]interface{}\<close>) is a \<open>VList\<close> of
  \<open>VMap\<close>s. No operation of the server computes with a number, so \<open>float64\<close> is left
  opaque.
\<close>

typedecl float64

datatype resource =
  Resource (Resource_URI: string) (Resource_Name: string)
           (Resource_Description: string) (Resource_MimeType: string)

datatype val =
    VNil
  | VBool bool
  | VNum float64
  | VStr string
  | VList "val list"
  | VMap "string \<Rightarrow> val option"
  | VTools "tool list"
  | VResources "resource list"
and tool =
  Tool (Tool_Name: string) (Tool_Description: string) (Tool_InputSchema: val)

text \<open>\<open>v.(map[string]interface{})\<close> and \<open>v.(string)\<close> in their two-result form:
  \<open>None\<close> is \<open>ok = false\<close>.\<close>

definition assert_map :: "val \<Rightarrow> (string \<rightharpoonup> val) option" where
  "assert_map v = (case v of VMap m \<Rightarrow> Some m | _ \<Rightarrow> None)"

definition assert_string :: "val \<Rightarrow> string option" where
  "assert_string v = (case v of VStr x \<Rightarrow> Some x | _ \<Rightarrow> None)"

text \<open>The index expression \<open>m[k]\<close> on a \<open>map[string]interface{}\<close>: the zero value
  (nil) when the key is absent.\<close>

definition index :: "(string \<rightharpoonup> val) \<Rightarrow> string \<Rightarrow> val" where
  "index m k = (case m k of None \<Rightarrow> VNil | Some v \<Rightarrow> v)"

text \<open>\<open>strings.HasPrefix(s, prefix)\<close> is
  \<open>len(s) >= len(prefix) && s[:len(prefix)] == prefix\<close>.\<close>

definition HasPrefix :: "string \<Rightarrow> string \<Rightarrow> bool" where
  "HasPrefix s p \<longleftrightarrow> length p \<le> length s \<and> take (length p) s = p"

section \<open>Messages and the server\<close>

record JSONRPCRequest =
  req_JSONRPC :: string
  req_ID :: val
  req_Method :: string
  req_Params :: val

record JSONRPCError =
  err_Code :: int
  err_Message :: string
  err_Data :: val

text \<open>\<open>Result\<close> is an \<open>interface{}\<close> (unset is \<open>VNil\<close>) and \<open>Error\<close> a pointer (unset
  is \<open>None\<close>); both carry \<open>omitempty\<close>, so an unset field is absent from the reply.\<close>

record JSONRPCResponse =
  resp_JSONRPC :: string
  resp_ID :: val
  resp_Result :: val
  resp_Error :: "JSONRPCError option"

record MCPServer =
  name :: string
  version :: string
  tools :: "string \<rightharpoonup> tool"
  resources :: "string \<rightharpoonup> resource"

definition NewMCPServer :: "string \<Rightarrow> string \<Rightarrow> MCPServer" where
  "NewMCPServer n v = \<lparr>name = n, version = v, tools = Map.empty, resources = Map.empty\<rparr>"

definition RegisterTool :: "MCPServer \<Rightarrow> tool \<Rightarrow> MCPServer" where
  "RegisterTool s t = s\<lparr>tools := (tools s)(Tool_Name t \<mapsto> t)\<rparr>"

definition RegisterResource :: "MCPServer \<Rightarrow> resource \<Rightarrow> MCPServer" where
  "RegisterResource s r = s\<lparr>resources := (resources s)(Resource_URI r \<mapsto> r)\<rparr>"

text \<open>What the two registration functions maintain: every tool is stored under its own
  name and every resource under its own URI.\<close>

definition registry_ok :: "MCPServer \<Rightarrow> bool" where
  "registry_ok s \<longleftrightarrow>
     (\<forall>k t. tools s k = Some t \<longrightarrow> Tool_Name t = k) \<and>
     (\<forall>k r. resources s k = Some r \<longrightarrow> Resource_URI r = k)"

section \<open>Iterating over a map\<close>

text \<open>
  \<open>for _, v := range m\<close> visits every entry of the map once, in an order the Go
  specification leaves open and does not promise to repeat from one loop to the next.
  The order is therefore an input of the model: \<open>range_order m ks\<close> says that \<open>ks\<close> is
  an order in which the loop may visit the keys of \<open>m\<close>, and \<open>range_values m ks\<close> is the
  slice the loop \<open>xs = append(xs, v)\<close> builds when it does.
\<close>

definition range_order :: "('k \<rightharpoonup> 'v) \<Rightarrow> 'k list \<Rightarrow> bool" where
  "range_order m ks \<longleftrightarrow> distinct ks \<and> set ks = dom m"

definition range_values :: "('k \<rightharpoonup> 'v) \<Rightarrow> 'k list \<Rightarrow> 'v list" where
  "range_values m ks = List.map_filter m ks"

section \<open>The handlers of the complete server\<close>

text \<open>The functions of this section are those of the complete source file, whose
  dispatcher is \<open>HandleRequest\<close>.\<close>

definition handleInitialize :: "MCPServer \<Rightarrow> JSONRPCRequest \<Rightarrow> JSONRPCResponse" where
  "handleInitialize s req =
     \<lparr>resp_JSONRPC = ''2.0'', resp_ID = req_ID req,
      resp_Result = VMap
        [''protocolVersion'' \<mapsto> VStr ''2024-11-05'',
         ''capabilities'' \<mapsto> VMap
            [''tools'' \<mapsto> VMap [''listChanged'' \<mapsto> VBool True],
             ''resources'' \<mapsto> VMap [''subscribe'' \<mapsto> VBool True,
                                         ''listChanged'' \<mapsto> VBool True]],
         ''serverInfo'' \<mapsto> VMap [''name'' \<mapsto> VStr (name s),
                                      ''version'' \<mapsto> VStr (version s)]],
      resp_Error = None\<rparr>"

definition handleToolsList ::
  "MCPServer \<Rightarrow> string list \<Rightarrow> JSONRPCRequest \<Rightarrow> JSONRPCResponse" where
  "handleToolsList s ks req =
     \<lparr>resp_JSONRPC = ''2.0'', resp_ID = req_ID req,
      resp_Result = VMap [''tools'' \<mapsto> VTools (range_values (tools s) ks)],
      resp_Error = None\<rparr>"

definition executeTool :: "MCPServer \<Rightarrow> string \<Rightarrow> val \<Rightarrow> (string \<rightharpoonup> val)" where
  "executeTool s toolName arguments =
     (if toolName = ''echo'' then
        (case assert_map arguments of
           None \<Rightarrow> [''error'' \<mapsto> VStr ''Invalid arguments'']
         | Some args \<Rightarrow>
             (case assert_string (index args ''message'') of
                None \<Rightarrow> [''error'' \<mapsto> VStr ''Message is required'']
              | Some message \<Rightarrow>
                  [''content'' \<mapsto> VList
                     [VMap [''type'' \<mapsto> VStr ''text'',
                            ''text'' \<mapsto> VStr (''Echo: '' @ message)]]]))
      else [''error'' \<mapsto> VStr ''Unknown tool''])"

definition handleToolsCall :: "MCPServer \<Rightarrow> JSONRPCRequest \<Rightarrow> JSONRPCResponse" where
  "handleToolsCall s req =
     (case assert_map (req_Params req) of
        None \<Rightarrow>
          \<lparr>resp_JSONRPC = ''2.0'', resp_ID = req_ID req, resp_Result = VNil,
           resp_Error = Some \<lparr>err_Code = - 32602, err_Message = ''Invalid parameters'',
                               err_Data = VNil\<rparr>\<rparr>
      | Some params \<Rightarrow>
          (case assert_string (index params ''name'') of
             None \<Rightarrow>
               \<lparr>resp_JSONRPC = ''2.0'', resp_ID = req_ID req, resp_Result = VNil,
                resp_Error = Some \<lparr>err_Code = - 32602,
                                    err_Message = ''Tool name is required'',
                                    err_Data = VNil\<rparr>\<rparr>
           | Some toolName \<Rightarrow>
               (if tools s toolName = None then
                  \<lparr>resp_JSONRPC = ''2.0'', resp_ID = req_ID req, resp_Result = VNil,
                   resp_Error = Some \<lparr>err_Code = - 32601,
                                       err_Message = ''Tool not found'',
                                       err_Data = VNil\<rparr>\<rparr>
                else
                  \<lparr>resp_JSONRPC = ''2.0'', resp_ID = req_ID req,
                   resp_Result = VMap (executeTool s toolName (index params ''arguments'')),
                   resp_Error = None\<rparr>)))"

definition handleResourcesList ::
  "MCPServer \<Rightarrow> string list \<Rightarrow> JSONRPCRequest \<Rightarrow> JSONRPCResponse" where
  "handleResourcesList s ks req =
     \<lparr>resp_JSONRPC = ''2.0'', resp_ID = req_ID req,
      resp_Result = VMap [''resources'' \<mapsto> VResources (range_values (resources s) ks)],
      resp_Error = None\<rparr>"

definition readResource :: "MCPServer \<Rightarrow> string \<Rightarrow> string" where
  "readResource s uri =
     (if HasPrefix uri ''file://'' then ''Content of '' @ uri
      else if HasPrefix uri ''https://'' then ''Web content of '' @ uri
      else ''Unknown resource type'')"

definition handleResourcesRead :: "MCPServer \<Rightarrow> JSONRPCRequest \<Rightarrow> JSONRPCResponse" where
  "handleResourcesRead s req =
     (case assert_map (req_Params req) of
        None \<Rightarrow>
          \<lparr>resp_JSONRPC = ''2.0'', resp_ID = req_ID req, resp_Result = VNil,
           resp_Error = Some \<lparr>err_Code = - 32602, err_Message = ''Invalid parameters'',
                               err_Data = VNil\<rparr>\<rparr>
      | Some params \<Rightarrow>
          (case assert_string (index params ''uri'') of
             None \<Rightarrow>
               \<lparr>resp_JSONRPC = ''2.0'', resp_ID = req_ID req, resp_Result = VNil,
                resp_Error = Some \<lparr>err_Code = - 32602, err_Message = ''URI is required'',
                                    err_Data = VNil\<rparr>\<rparr>
           | Some uri \<Rightarrow>
               (if \<not> HasPrefix uri ''file://'' \<and> \<not> HasPrefix uri ''https://'' then
                  \<lparr>resp_JSONRPC = ''2.0'', resp_ID = req_ID req, resp_Result = VNil,
                   resp_Error = Some \<lparr>err_Code = - 32602,
                                       err_Message = ''Invalid URI scheme'',
                                       err_Data = VNil\<rparr>\<rparr>
                else
                  \<lparr>resp_JSONRPC = ''2.0'', resp_ID = req_ID req,
                   resp_Result = VMap
                     [''contents'' \<mapsto> VList
                        [VMap [''uri'' \<mapsto> VStr uri,
                               ''mimeType'' \<mapsto> VStr ''text/plain'',
                               ''text'' \<mapsto> VStr (readResource s uri)]]],
                   resp_Error = None\<rparr>)))"

text \<open>The dispatcher. \<open>tks\<close> and \<open>rks\<close> are the orders in which the two list handlers
  visit the tool map and the resource map, should the request reach them.\<close>

definition HandleRequest ::
  "MCPServer \<Rightarrow> string list \<Rightarrow> string list \<Rightarrow> JSONRPCRequest \<Rightarrow> JSONRPCResponse" where
  "HandleRequest s tks rks req =
     (if req_JSONRPC req \<noteq> ''2.0'' then
        \<lparr>resp_JSONRPC = ''2.0'', resp_ID = req_ID req, resp_Result = VNil,
         resp_Error = Some \<lparr>err_Code = - 32600,
                             err_Message = ''Invalid JSON-RPC version'',
                             err_Data = VNil\<rparr>\<rparr>
      else if req_Method req = ''initialize'' then handleInitialize s req
      else if req_Method req = ''tools/list'' then handleToolsList s tks req
      else if req_Method req = ''tools/call'' then handleToolsCall s req
      else if req_Method req = ''resources/list'' then handleResourcesList s rks req
      else if req_Method req = ''resources/read'' then handleResourcesRead s req
      else
        \<lparr>resp_JSONRPC = ''2.0'', resp_ID = req_ID req, resp_Result = VNil,
         resp_Error = Some \<lparr>err_Code = - 32601, err_Message = ''Method not found'',
                             err_Data = VNil\<rparr>\<rparr>)"

text \<open>The replies a request can get: one for each order the runtime may pick.\<close>

definition HandleRequest_returns ::
  "MCPServer \<Rightarrow> JSONRPCRequest \<Rightarrow> JSONRPCResponse \<Rightarrow> bool" where
  "HandleRequest_returns s req resp \<longleftrightarrow>
     (\<exists>tks rks. range_order (tools s) tks \<and> range_order (resources s) rks \<and>
                resp = HandleRequest s tks rks req)"

section \<open>The handlers of the draft under cmd/mcp\<close>

text \<open>
  The second source file, \<open>cmd/mcp/main.go\<close>, is a retyped draft of the same server. Its
  \<open>handleToolsList\<close>, \<open>handleResourcesList\<close> and \<open>executeTool\<close> are the same functions as
  above. Its \<open>handleInitialize\<close> and \<open>handleToolsCall\<close> differ in one constant each, and
  its dispatcher \<open>hadlerRequest\<close> has two cases only. They are modelled here under the
  suffix \<open>_cmd\<close>.
\<close>

definition handleInitialize_cmd :: "MCPServer \<Rightarrow> JSONRPCRequest \<Rightarrow> JSONRPCResponse" where
  "handleInitialize_cmd s req =
     \<lparr>resp_JSONRPC = ''2.0'', resp_ID = req_ID req,
      resp_Result = VMap
        [''protocolVersion'' \<mapsto> VStr ''2024-11-05'',
         ''capabilities'' \<mapsto> VMap
            [''tools'' \<mapsto> VMap [''listChanged'' \<mapsto> VBool True],
             ''resource'' \<mapsto> VMap [''subscribe'' \<mapsto> VBool True,
                                        ''listChanged'' \<mapsto> VBool True]],
         ''serverInfo'' \<mapsto> VMap [''name'' \<mapsto> VStr (name s),
                                      ''version'' \<mapsto> VStr (version s)]],
      resp_Error = None\<rparr>"

definition handleToolsCall_cmd :: "MCPServer \<Rightarrow> JSONRPCRequest \<Rightarrow> JSONRPCResponse" where
  "handleToolsCall_cmd s req =
     (case assert_map (req_Params req) of
        None \<Rightarrow>
          \<lparr>resp_JSONRPC = ''2.0'', resp_ID = req_ID req, resp_Result = VNil,
           resp_Error = Some \<lparr>err_Code = - 32602, err_Message = ''Invalid parameters'',
                               err_Data = VNil\<rparr>\<rparr>
      | Some params \<Rightarrow>
          (case assert_string (index params ''name'') of
             None \<Rightarrow>
               \<lparr>resp_JSONRPC = ''2.0'', resp_ID = req_ID req, resp_Result = VNil,
                resp_Error = Some \<lparr>err_Code = - 32602,
                                    err_Message = ''Tool name is required'',
                                    err_Data = VNil\<rparr>\<rparr>
           | Some toolName \<Rightarrow>
               (if tools s toolName = None then
                  \<lparr>resp_JSONRPC = ''2.0'', resp_ID = req_ID req, resp_Result = VNil,
                   resp_Error = Some \<lparr>err_Code = - 326001,
                                       err_Message = ''Tool not found'',
                                       err_Data = VNil\<rparr>\<rparr>
                else
                  \<lparr>resp_JSONRPC = ''2.0'', resp_ID = req_ID req,
                   resp_Result = VMap (executeTool s toolName (index params ''arguments'')),
                   resp_Error = None\<rparr>)))"

text \<open>The draft's dispatcher ends after its second case without a return statement;
  \<open>None\<close> stands for the requests it has no reply for.\<close>

definition hadlerRequest ::
  "MCPServer \<Rightarrow> string list \<Rightarrow> JSONRPCRequest \<Rightarrow> JSONRPCResponse option" where
  "hadlerRequest s tks req =
     (if req_JSONRPC req \<noteq> ''2.0'' then
        Some \<lparr>resp_JSONRPC = ''2.0'', resp_ID = req_ID req, resp_Result = VNil,
              resp_Error = Some \<lparr>err_Code = - 32600,
                                  err_Message = ''Invalid JSON-RPC version'',
                                  err_Data = VNil\<rparr>\<rparr>
      else if req_Method req = ''initialize'' then Some (handleInitialize_cmd s req)
      else if req_Method req = ''tools/list'' then Some (handleToolsList s tks req)
      else None)"

section \<open>The server that main builds\<close>

text \<open>\<open>main\<close> of the complete file creates the server, registers the echo tool and
  one example resource, and starts the loop.\<close>

definition echo_tool :: tool where
  "echo_tool =
     Tool ''echo'' ''Echo back the provided message''
       (VMap [''type'' \<mapsto> VStr ''object'',
              ''properties'' \<mapsto> VMap
                 [''message'' \<mapsto> VMap [''type'' \<mapsto> VStr ''string'',
                                            ''description'' \<mapsto> VStr ''Message to echo back'']],
              ''required'' \<mapsto> VList [VStr ''message'']])"

definition example_resource :: resource where
  "example_resource =
     Resource ''file:///example.txt'' ''Example File'' ''An example text file'' ''text/plain''"

definition main_server :: MCPServer where
  "main_server =
     RegisterResource
       (RegisterTool (NewMCPServer ''CustomMCPServer'' ''1.0.0'') echo_tool)
       example_resource"

section \<open>The advertisement the specification asks for\<close>

text \<open>This definition follows the words of the specification, not the source: the
  capability object that \<open>initialize\<close> is to return for a server name and version. The
  handlers above are compared with it.\<close>

definition spec_advertisement :: "string \<Rightarrow> string \<Rightarrow> val" where
  "spec_advertisement n v =
     VMap [''protocolVersion'' \<mapsto> VStr ''2024-11-05'',
           ''capabilities'' \<mapsto> VMap
              [''tools'' \<mapsto> VMap [''listChanged'' \<mapsto> VBool True],
               ''resources'' \<mapsto> VMap [''subscribe'' \<mapsto> VBool True,
                                           ''listChanged'' \<mapsto> VBool True]],
           ''serverInfo'' \<mapsto> VMap [''name'' \<mapsto> VStr n, ''version'' \<mapsto> VStr v]]"

text \<open>Reading one entry of the \<open>capabilities\<close> object of a result: \<open>r["capabilities"][k]\<close>,
  nil where a step is missing.\<close>

definition capabilities_of :: "val \<Rightarrow> string \<Rightarrow> val" where
  "capabilities_of r k =
     (case assert_map r of
        None \<Rightarrow> VNil
      | Some m \<Rightarrow> (case assert_map (index m ''capabilities'') of
                     None \<Rightarrow> VNil
                   | Some c \<Rightarrow> index c k))"

section \<open>Basic facts\<close>

lemma HasPrefix_iff_prefix: "HasPrefix s p \<longleftrightarrow> prefix p s"
  unfolding HasPrefix_def
  by (metis prefix_def append_eq_conv_conj length_append le_add1 append_take_drop_id)

lemma readResource_independent: "readResource s uri = readResource s' uri"
  by (simp add: readResource_def)

lemma main_server_tools: "tools main_server = [''echo'' \<mapsto> echo_tool]"
  by (simp add: main_server_def RegisterResource_def RegisterTool_def NewMCPServer_def
                echo_tool_def)

lemma main_server_resources:
  "resources main_server = [''file:///example.txt'' \<mapsto> example_resource]"
  by (simp add: main_server_def RegisterResource_def RegisterTool_def NewMCPServer_def
                example_resource_def)

subsection \<open>The registry\<close>

lemma NewMCPServer_registry_ok: "registry_ok (NewMCPServer n v)"
  by (simp add: registry_ok_def NewMCPServer_def)

lemma RegisterTool_registry_ok: "registry_ok s \<Longrightarrow> registry_ok (RegisterTool s t)"
  by (simp add: registry_ok_def RegisterTool_def)

lemma RegisterResource_registry_ok: "registry_ok s \<Longrightarrow> registry_ok (RegisterResource s r)"
  by (simp add: registry_ok_def RegisterResource_def)

subsection \<open>The slice a range loop builds\<close>

lemma range_values_eq:
  assumes "set ks \<subseteq> dom m"
  shows "range_values m ks = map (\<lambda>k. the (m k)) ks"
  using assms unfolding range_values_def
  by (induction ks) auto

lemma range_values_set:
  assumes "range_order m ks"
  shows "set (range_values m ks) = ran m"
proof -
  have sub: "set ks \<subseteq> dom m" using assms by (simp add: range_order_def)
  have "set (range_values m ks) = (\<lambda>k. the (m k)) ` dom m"
    using assms range_values_eq [OF sub] by (simp add: range_order_def)
  also have "\<dots> = ran m"
    by (force simp: ran_def dom_def)
  finally show ?thesis .
qed

lemma range_values_keys:
  assumes "\<And>k v. m k = Some v \<Longrightarrow> f v = k" and "set ks \<subseteq> dom m"
  shows "map f (range_values m ks) = ks"
proof -
  have "map f (map (\<lambda>k. the (m k)) ks) = ks"
    using assms by (induction ks) auto
  then show ?thesis using range_values_eq [OF assms(2)] by simp
qed

lemma range_values_length:
  assumes "range_order m ks"
  shows "length (range_values m ks) = card (dom m)"
proof -
  have sub: "set ks \<subseteq> dom m" using assms by (simp add: range_order_def)
  have "length (range_values m ks) = length ks" using range_values_eq [OF sub] by simp
  moreover have "length ks = card (dom m)"
    using assms unfolding range_order_def by (metis distinct_card)
  ultimately show ?thesis by simp
qed

text \<open>A Go map is finite, so the loop has some order to follow, and every request gets
  a reply.\<close>

lemma range_order_exists:
  assumes "finite (dom m)"
  shows "\<exists>ks. range_order m ks"
  using finite_distinct_list [OF assms] by (auto simp: range_order_def)

lemma HandleRequest_returns_some:
  assumes "finite (dom (tools s))" and "finite (dom (resources s))"
  shows "\<exists>resp. HandleRequest_returns s req resp"
  using range_order_exists [OF assms(1)] range_order_exists [OF assms(2)]
  by (auto simp: HandleRequest_returns_def)

subsection \<open>Routing\<close>

lemma HandleRequest_routes:
  assumes "req_JSONRPC req = ''2.0''"
  shows "req_Method req = ''initialize'' \<Longrightarrow>
           HandleRequest s tks rks req = handleInitialize s req"
    and "req_Method req = ''tools/list'' \<Longrightarrow>
           HandleRequest s tks rks req = handleToolsList s tks req"
    and "req_Method req = ''tools/call'' \<Longrightarrow>
           HandleRequest s tks rks req = handleToolsCall s req"
    and "req_Method req = ''resources/list'' \<Longrightarrow>
           HandleRequest s tks rks req = handleResourcesList s rks req"
    and "req_Method req = ''resources/read'' \<Longrightarrow>
           HandleRequest s tks rks req = handleResourcesRead s req"
  using assms by (simp_all add: HandleRequest_def)

lemma HandleRequest_unknown_method:
  assumes "req_JSONRPC req = ''2.0''"
    and "req_Method req \<notin> {''initialize'', ''tools/list'', ''tools/call'',
                              ''resources/list'', ''resources/read''}"
  shows "HandleRequest s tks rks req =
           \<lparr>resp_JSONRPC = ''2.0'', resp_ID = req_ID req, resp_Result = VNil,
            resp_Error = Some \<lparr>err_Code = - 32601, err_Message = ''Method not found'',
                                err_Data = VNil\<rparr>\<rparr>"
  using assms by (simp add: HandleRequest_def)

subsection \<open>The tool executor\<close>

lemma executeTool_echo_ok:
  assumes "arg = VMap a" and "a ''message'' = Some (VStr m)"
  shows "executeTool s ''echo'' arg =
           [''content'' \<mapsto> VList [VMap [''type'' \<mapsto> VStr ''text'',
                                            ''text'' \<mapsto> VStr (''Echo: '' @ m)]]]"
  using assms by (simp add: executeTool_def assert_map_def assert_string_def index_def)

lemma executeTool_echo_not_object:
  assumes "\<forall>a. arg \<noteq> VMap a"
  shows "executeTool s ''echo'' arg = [''error'' \<mapsto> VStr ''Invalid arguments'']"
  using assms by (cases arg) (simp_all add: executeTool_def assert_map_def)

lemma executeTool_echo_no_message:
  assumes "arg = VMap a" and "\<forall>m. a ''message'' \<noteq> Some (VStr m)"
  shows "executeTool s ''echo'' arg = [''error'' \<mapsto> VStr ''Message is required'']"
proof (cases "a ''message''")
  case None
  with assms(1) show ?thesis
    by (simp add: executeTool_def assert_map_def assert_string_def index_def)
next
  case (Some v)
  with assms show ?thesis
    by (cases v) (simp_all add: executeTool_def assert_map_def assert_string_def index_def)
qed

lemma executeTool_outcomes:
  "(\<exists>a m. n = ''echo'' \<and> arg = VMap a \<and> a ''message'' = Some (VStr m) \<and>
          executeTool s n arg =
            [''content'' \<mapsto> VList [VMap [''type'' \<mapsto> VStr ''text'',
                                             ''text'' \<mapsto> VStr (''Echo: '' @ m)]]]) \<or>
   executeTool s n arg = [''error'' \<mapsto> VStr ''Invalid arguments''] \<or>
   executeTool s n arg = [''error'' \<mapsto> VStr ''Message is required''] \<or>
   executeTool s n arg = [''error'' \<mapsto> VStr ''Unknown tool'']"
  by (cases arg) (auto simp: executeTool_def assert_map_def assert_string_def index_def
        split: option.splits val.splits)

subsection \<open>The two handlers with parameters\<close>

lemma handleToolsCall_registered:
  assumes "req_Params req = VMap ps" "ps ''name'' = Some (VStr n)" "tools s n = Some t"
  shows "handleToolsCall s req =
           \<lparr>resp_JSONRPC = ''2.0'', resp_ID = req_ID req,
            resp_Result = VMap (executeTool s n (index ps ''arguments'')),
            resp_Error = None\<rparr>"
  using assms by (simp add: handleToolsCall_def assert_map_def assert_string_def index_def)

lemma handleToolsCall_unregistered:
  assumes "req_Params req = VMap ps" "ps ''name'' = Some (VStr n)" "tools s n = None"
  shows "handleToolsCall s req =
           \<lparr>resp_JSONRPC = ''2.0'', resp_ID = req_ID req, resp_Result = VNil,
            resp_Error = Some \<lparr>err_Code = - 32601, err_Message = ''Tool not found'',
                                err_Data = VNil\<rparr>\<rparr>"
  using assms by (simp add: handleToolsCall_def assert_map_def assert_string_def index_def)

lemma handleResourcesRead_rejected:
  assumes "req_Params req = VMap ps" and "ps ''uri'' = Some (VStr u)"
    and "\<not> prefix ''file://'' u" and "\<not> prefix ''https://'' u"
  shows "handleResourcesRead s req =
           \<lparr>resp_JSONRPC = ''2.0'', resp_ID = req_ID req, resp_Result = VNil,
            resp_Error = Some \<lparr>err_Code = - 32602, err_Message = ''Invalid URI scheme'',
                                err_Data = VNil\<rparr>\<rparr>"
  using assms
  by (simp add: handleResourcesRead_def assert_map_def assert_string_def index_def
                HasPrefix_iff_prefix)

lemma handleResourcesRead_allowed:
  assumes "req_Params req = VMap ps" and "ps ''uri'' = Some (VStr u)"
    and "prefix ''file://'' u \<or> prefix ''https://'' u"
  shows "handleResourcesRead s req =
           \<lparr>resp_JSONRPC = ''2.0'', resp_ID = req_ID req,
            resp_Result = VMap
              [''contents'' \<mapsto> VList
                 [VMap [''uri'' \<mapsto> VStr u,
                        ''mimeType'' \<mapsto> VStr ''text/plain'',
                        ''text'' \<mapsto> VStr (if prefix ''file://'' u then ''Content of '' @ u
                                               else ''Web content of '' @ u)]]],
            resp_Error = None\<rparr>"
  using assms
  by (auto simp: handleResourcesRead_def assert_map_def assert_string_def index_def
                 HasPrefix_iff_prefix readResource_def)

lemma handleToolsCall_envelope:
  "resp_ID (handleToolsCall s req) = req_ID req \<and>
   (resp_Result (handleToolsCall s req) \<noteq> VNil) \<noteq> (resp_Error (handleToolsCall s req) \<noteq> None)"
  by (simp add: handleToolsCall_def split: option.splits)

lemma handleResourcesRead_envelope:
  "resp_ID (handleResourcesRead s req) = req_ID req \<and>
   (resp_Result (handleResourcesRead s req) \<noteq> VNil) \<noteq>
   (resp_Error (handleResourcesRead s req) \<noteq> None)"
  by (simp add: handleResourcesRead_def split: option.splits)

subsection \<open>The complete server against the specification's constants\<close>

text \<open>In the complete file an unregistered tool name gets the code of an unknown
  method, and \<open>initialize\<close> returns the advertisement of the specification, the same
  for the same server name, version and request id.\<close>

lemma HandleRequest_unknown_tool:
  assumes "req_JSONRPC req = ''2.0''" and "req_Method req = ''tools/call''"
    and "req_Params req = VMap ps" and "ps ''name'' = Some (VStr n)"
    and "tools s n = None"
  shows "HandleRequest s tks rks req =
           \<lparr>resp_JSONRPC = ''2.0'', resp_ID = req_ID req, resp_Result = VNil,
            resp_Error = Some \<lparr>err_Code = - 32601, err_Message = ''Tool not found'',
                                err_Data = VNil\<rparr>\<rparr>"
  using assms(1,2) handleToolsCall_unregistered [OF assms(3-5)]
  by (simp add: HandleRequest_def)

lemma handleInitialize_advertises:
  "handleInitialize s req =
     \<lparr>resp_JSONRPC = ''2.0'', resp_ID = req_ID req,
      resp_Result = spec_advertisement (name s) (version s), resp_Error = None\<rparr>"
  by (simp add: handleInitialize_def spec_advertisement_def)

lemma handleInitialize_deterministic:
  assumes "name s = name s'" and "version s = version s'" and "req_ID req = req_ID req'"
  shows "handleInitialize s req = handleInitialize s' req'"
  using assms by (simp add: handleInitialize_def)

lemma spec_advertisement_resources:
  "capabilities_of (spec_advertisement n v) ''resources'' =
     VMap [''subscribe'' \<mapsto> VBool True, ''listChanged'' \<mapsto> VBool True]"
  by (simp add: capabilities_of_def spec_advertisement_def assert_map_def index_def)

section \<open>Properties of the request handlers\<close>

subsection \<open>Calling a registered tool\<close>

text \<open>
  C1. A \<open>tools/call\<close> request that reaches its handler (version \<open>"2.0"\<close>) with an
  object for \<open>params\<close> and a registered name in it is answered with a result and no
  error object, whatever the arguments. The result is the payload of \<open>executeTool\<close>:
  either the echo tool's content, or an object whose only field is \<open>error\<close>. Calling
  echo with \<open>arguments = {}\<close> gives \<open>{error: "Message is required"}\<close> as the result.
\<close>

theorem tools_call_registered_is_result:
  assumes "req_JSONRPC req = ''2.0''" and "req_Method req = ''tools/call''"
    and "req_Params req = VMap ps" and "ps ''name'' = Some (VStr n)"
    and "tools s n = Some t"
  shows "resp_Error (HandleRequest s tks rks req) = None \<and>
         resp_Result (HandleRequest s tks rks req) =
           VMap (executeTool s n (index ps ''arguments'')) \<and>
         ((\<exists>a m. n = ''echo'' \<and> index ps ''arguments'' = VMap a \<and>
                 a ''message'' = Some (VStr m) \<and>
                 executeTool s n (index ps ''arguments'') =
                   [''content'' \<mapsto> VList [VMap [''type'' \<mapsto> VStr ''text'',
                                                    ''text'' \<mapsto> VStr (''Echo: '' @ m)]]]) \<or>
          (\<exists>msg. executeTool s n (index ps ''arguments'') = [''error'' \<mapsto> VStr msg]))"
proof -
  have "HandleRequest s tks rks req = handleToolsCall s req"
    using assms(1,2) by (simp add: HandleRequest_def)
  then show ?thesis
    using handleToolsCall_registered [OF assms(3-5)]
          executeTool_outcomes [of n "index ps ''arguments''" s]
    by auto
qed

theorem tools_call_registered_is_result_witness:
  "req_JSONRPC \<lparr>req_JSONRPC = ''2.0'', req_ID = VStr ''1'', req_Method = ''tools/call'',
       req_Params = VMap [''name'' \<mapsto> VStr ''echo'', ''arguments'' \<mapsto> VMap Map.empty]\<rparr> = ''2.0'' \<and>
   tools main_server ''echo'' = Some echo_tool \<and>
   resp_Error (HandleRequest main_server [''echo''] [''file:///example.txt'']
     \<lparr>req_JSONRPC = ''2.0'', req_ID = VStr ''1'', req_Method = ''tools/call'',
       req_Params = VMap [''name'' \<mapsto> VStr ''echo'', ''arguments'' \<mapsto> VMap Map.empty]\<rparr>) = None \<and>
   resp_Result (HandleRequest main_server [''echo''] [''file:///example.txt'']
     \<lparr>req_JSONRPC = ''2.0'', req_ID = VStr ''1'', req_Method = ''tools/call'',
       req_Params = VMap [''name'' \<mapsto> VStr ''echo'', ''arguments'' \<mapsto> VMap Map.empty]\<rparr>)
     = VMap [''error'' \<mapsto> VStr ''Message is required'']"
  using tools_call_registered_is_result
    [of "\<lparr>req_JSONRPC = ''2.0'', req_ID = VStr ''1'', req_Method = ''tools/call'',
       req_Params = VMap [''name'' \<mapsto> VStr ''echo'', ''arguments'' \<mapsto> VMap Map.empty]\<rparr>"
       "[''name'' \<mapsto> VStr ''echo'', ''arguments'' \<mapsto> VMap Map.empty]"
       "''echo''" main_server echo_tool "[''echo'']" "[''file:///example.txt'']"]
  by (simp add: main_server_tools executeTool_def assert_map_def assert_string_def index_def)

subsection \<open>Calling an unregistered tool\<close>

text \<open>
  C2. The specification asks for code \<open>-32601\<close> and message \<open>"Tool not found"\<close> when the name is
  not registered. The complete file does that. The draft's \<open>handleToolsCall\<close> does not:
  on a server without tools, the request
  \<open>{"jsonrpc":"2.0","id":"1","method":"tools/call","params":{"name":"echo"}}\<close> gets the
  code \<open>-326001\<close>, one digit too many, which is not the code of an unknown method.
\<close>

theorem handleToolsCall_cmd_tool_not_found_code:
  "handleToolsCall_cmd (NewMCPServer ''CustomMCPServer'' ''1.0.0'')
     \<lparr>req_JSONRPC = ''2.0'', req_ID = VStr ''1'', req_Method = ''tools/call'',
      req_Params = VMap [''name'' \<mapsto> VStr ''echo'']\<rparr> =
   \<lparr>resp_JSONRPC = ''2.0'', resp_ID = VStr ''1'', resp_Result = VNil,
    resp_Error = Some \<lparr>err_Code = - 326001, err_Message = ''Tool not found'',
                        err_Data = VNil\<rparr>\<rparr> \<and>
   handleToolsCall_cmd (NewMCPServer ''CustomMCPServer'' ''1.0.0'')
     \<lparr>req_JSONRPC = ''2.0'', req_ID = VStr ''1'', req_Method = ''tools/call'',
      req_Params = VMap [''name'' \<mapsto> VStr ''echo'']\<rparr> \<noteq>
   \<lparr>resp_JSONRPC = ''2.0'', resp_ID = VStr ''1'', resp_Result = VNil,
    resp_Error = Some \<lparr>err_Code = - 32601, err_Message = ''Tool not found'',
                        err_Data = VNil\<rparr>\<rparr>"
  by (simp add: handleToolsCall_cmd_def NewMCPServer_def assert_map_def assert_string_def
                index_def)

subsection \<open>Listing tools and resources\<close>

text \<open>
  C3, as stated: the sequence \<open>tools/list\<close> returns is the same on every call. It is
  not. With tools \<open>A\<close> and \<open>B\<close> registered, the loop over the tool map may visit \<open>A\<close>
  first or \<open>B\<close> first, and the two replies differ.
\<close>

theorem list_order_counterexample:
  "range_order
     (tools (RegisterTool (RegisterTool (NewMCPServer ''srv'' ''1'') (Tool ''A'' [] VNil))
                          (Tool ''B'' [] VNil)))
     [''A'', ''B''] \<and>
   range_order
     (tools (RegisterTool (RegisterTool (NewMCPServer ''srv'' ''1'') (Tool ''A'' [] VNil))
                          (Tool ''B'' [] VNil)))
     [''B'', ''A''] \<and>
   handleToolsList
     (RegisterTool (RegisterTool (NewMCPServer ''srv'' ''1'') (Tool ''A'' [] VNil))
                   (Tool ''B'' [] VNil))
     [''A'', ''B'']
     \<lparr>req_JSONRPC = ''2.0'', req_ID = VStr ''1'', req_Method = ''tools/list'',
      req_Params = VNil\<rparr> \<noteq>
   handleToolsList
     (RegisterTool (RegisterTool (NewMCPServer ''srv'' ''1'') (Tool ''A'' [] VNil))
                   (Tool ''B'' [] VNil))
     [''B'', ''A'']
     \<lparr>req_JSONRPC = ''2.0'', req_ID = VStr ''1'', req_Method = ''tools/list'',
      req_Params = VNil\<rparr>"
proof -
  have "range_values [''A'' \<mapsto> Tool ''A'' [] VNil, ''B'' \<mapsto> Tool ''B'' [] VNil] [''A'', ''B'']
          = [Tool ''A'' [] VNil, Tool ''B'' [] VNil]"
    by (simp add: range_values_def)
  moreover have "range_values [''A'' \<mapsto> Tool ''A'' [] VNil, ''B'' \<mapsto> Tool ''B'' [] VNil] [''B'', ''A'']
          = [Tool ''B'' [] VNil, Tool ''A'' [] VNil]"
    by (simp add: range_values_def)
  ultimately show ?thesis
    by (auto simp: range_order_def handleToolsList_def RegisterTool_def NewMCPServer_def
             dest: fun_cong [where x = "''tools''"])
qed

text \<open>
  C3, amended. For a registry built by the registration functions and whatever order
  the loops follow, \<open>tools/list\<close> returns exactly the registered tools, none twice, and
  \<open>resources/list\<close> exactly the registered resources, none twice. The names (the URIs)
  appear in the order the loop visited the keys; the code fixes no such order.
\<close>

theorem list_handlers_exact_in_any_order:
  assumes "registry_ok s" and "range_order (tools s) tks"
    and "range_order (resources s) rks"
  shows "handleToolsList s tks req =
           \<lparr>resp_JSONRPC = ''2.0'', resp_ID = req_ID req,
            resp_Result = VMap [''tools'' \<mapsto> VTools (range_values (tools s) tks)],
            resp_Error = None\<rparr> \<and>
         set (range_values (tools s) tks) = ran (tools s) \<and>
         distinct (range_values (tools s) tks) \<and>
         map Tool_Name (range_values (tools s) tks) = tks \<and>
         handleResourcesList s rks req =
           \<lparr>resp_JSONRPC = ''2.0'', resp_ID = req_ID req,
            resp_Result = VMap [''resources'' \<mapsto> VResources (range_values (resources s) rks)],
            resp_Error = None\<rparr> \<and>
         set (range_values (resources s) rks) = ran (resources s) \<and>
         distinct (range_values (resources s) rks) \<and>
         map Resource_URI (range_values (resources s) rks) = rks"
proof -
  have tsub: "set tks \<subseteq> dom (tools s)" and tdist: "distinct tks"
    using assms(2) by (simp_all add: range_order_def)
  have rsub: "set rks \<subseteq> dom (resources s)" and rdist: "distinct rks"
    using assms(3) by (simp_all add: range_order_def)
  have tk: "map Tool_Name (range_values (tools s) tks) = tks"
    using assms(1) by (intro range_values_keys [OF _ tsub]) (simp add: registry_ok_def)
  have rk: "map Resource_URI (range_values (resources s) rks) = rks"
    using assms(1) by (intro range_values_keys [OF _ rsub]) (simp add: registry_ok_def)
  have td: "distinct (range_values (tools s) tks)"
    using tk tdist by (metis distinct_map)
  have rd: "distinct (range_values (resources s) rks)"
    using rk rdist by (metis distinct_map)
  show ?thesis
    using tk rk td rd range_values_set [OF assms(2)] range_values_set [OF assms(3)]
    by (simp add: handleToolsList_def handleResourcesList_def)
qed

theorem list_handlers_exact_in_any_order_witness:
  "registry_ok main_server \<and>
   range_order (tools main_server) [''echo''] \<and>
   range_order (resources main_server) [''file:///example.txt''] \<and>
   resp_Result (handleToolsList main_server [''echo'']
     \<lparr>req_JSONRPC = ''2.0'', req_ID = VStr ''1'', req_Method = ''tools/list'',
      req_Params = VNil\<rparr>) = VMap [''tools'' \<mapsto> VTools [echo_tool]] \<and>
   resp_Result (handleResourcesList main_server [''file:///example.txt'']
     \<lparr>req_JSONRPC = ''2.0'', req_ID = VStr ''1'', req_Method = ''resources/list'',
      req_Params = VNil\<rparr>) = VMap [''resources'' \<mapsto> VResources [example_resource]]"
proof -
  have ok: "registry_ok main_server"
    unfolding main_server_def
    by (intro RegisterResource_registry_ok RegisterTool_registry_ok NewMCPServer_registry_ok)
  have t: "range_order (tools main_server) [''echo'']"
    by (simp add: range_order_def main_server_tools)
  have r: "range_order (resources main_server) [''file:///example.txt'']"
    by (simp add: range_order_def main_server_resources)
  have "range_values (tools main_server) [''echo''] = [echo_tool]"
    by (simp add: range_values_def main_server_tools)
  moreover have "range_values (resources main_server) [''file:///example.txt''] = [example_resource]"
    by (simp add: range_values_def main_server_resources)
  ultimately show ?thesis
    using ok t r
      list_handlers_exact_in_any_order [OF ok t r,
        of "\<lparr>req_JSONRPC = ''2.0'', req_ID = VStr ''1'', req_Method = ''tools/list'',
             req_Params = VNil\<rparr>"]
      list_handlers_exact_in_any_order [OF ok t r,
        of "\<lparr>req_JSONRPC = ''2.0'', req_ID = VStr ''1'', req_Method = ''resources/list'',
             req_Params = VNil\<rparr>"]
    by simp
qed

subsection \<open>A wrong protocol version\<close>

text \<open>
  C4, as stated: a request whose version is not \<open>"2.0"\<close> gets code \<open>-32600\<close> and message
  \<open>"Invalid Request"\<close>. The code is as claimed; the message is not. A request with
  version \<open>"1.0"\<close> gets the message \<open>"Invalid JSON-RPC version"\<close>.
\<close>

theorem bad_version_message_counterexample:
  "HandleRequest (NewMCPServer ''CustomMCPServer'' ''1.0.0'') [] []
     \<lparr>req_JSONRPC = ''1.0'', req_ID = VStr ''1'', req_Method = ''initialize'',
      req_Params = VNil\<rparr> =
   \<lparr>resp_JSONRPC = ''2.0'', resp_ID = VStr ''1'', resp_Result = VNil,
    resp_Error = Some \<lparr>err_Code = - 32600, err_Message = ''Invalid JSON-RPC version'',
                        err_Data = VNil\<rparr>\<rparr> \<and>
   resp_Error (HandleRequest (NewMCPServer ''CustomMCPServer'' ''1.0.0'') [] []
     \<lparr>req_JSONRPC = ''1.0'', req_ID = VStr ''1'', req_Method = ''initialize'',
      req_Params = VNil\<rparr>) \<noteq>
   Some \<lparr>err_Code = - 32600, err_Message = ''Invalid Request'', err_Data = VNil\<rparr>"
  by (simp add: HandleRequest_def)

text \<open>
  C4, amended. A request whose version is not \<open>"2.0"\<close> gets, from the dispatcher of
  the complete file and from the draft's alike, an error with code \<open>-32600\<close> and message
  \<open>"Invalid JSON-RPC version"\<close>. The reply is this one whatever the method, the
  parameters and the registry are: no handler takes part in it.
\<close>

theorem bad_version_rejected:
  assumes "req_JSONRPC req \<noteq> ''2.0''"
  shows "HandleRequest s tks rks req =
           \<lparr>resp_JSONRPC = ''2.0'', resp_ID = req_ID req, resp_Result = VNil,
            resp_Error = Some \<lparr>err_Code = - 32600,
                                err_Message = ''Invalid JSON-RPC version'',
                                err_Data = VNil\<rparr>\<rparr> \<and>
         hadlerRequest s tks req = Some (HandleRequest s tks rks req)"
  using assms by (simp add: HandleRequest_def hadlerRequest_def)

theorem bad_version_rejected_witness:
  "req_JSONRPC \<lparr>req_JSONRPC = ''1.0'', req_ID = VStr ''7'', req_Method = ''tools/call'',
                 req_Params = VMap [''name'' \<mapsto> VStr ''echo'']\<rparr> \<noteq> ''2.0'' \<and>
   HandleRequest main_server [''echo''] [''file:///example.txt'']
     \<lparr>req_JSONRPC = ''1.0'', req_ID = VStr ''7'', req_Method = ''tools/call'',
      req_Params = VMap [''name'' \<mapsto> VStr ''echo'']\<rparr> =
   \<lparr>resp_JSONRPC = ''2.0'', resp_ID = VStr ''7'', resp_Result = VNil,
    resp_Error = Some \<lparr>err_Code = - 32600, err_Message = ''Invalid JSON-RPC version'',
                        err_Data = VNil\<rparr>\<rparr>"
  using bad_version_rejected
    [of "\<lparr>req_JSONRPC = ''1.0'', req_ID = VStr ''7'', req_Method = ''tools/call'',
          req_Params = VMap [''name'' \<mapsto> VStr ''echo'']\<rparr>"
        main_server "[''echo'']" "[''file:///example.txt'']"]
  by simp

subsection \<open>The capability advertisement\<close>

text \<open>
  C5. The specification asks \<open>initialize\<close> for the advertisement with the capability keys
  \<open>tools\<close> and \<open>resources\<close>. The complete file returns it. The draft's
  \<open>handleInitialize\<close> spells the second key \<open>resource\<close>: its reply has no \<open>resources\<close>
  capability and is not the advertisement.
\<close>

theorem handleInitialize_cmd_capability_key:
  "capabilities_of
     (resp_Result (handleInitialize_cmd (NewMCPServer ''CustomMCPServer'' ''1.0.0'')
        \<lparr>req_JSONRPC = ''2.0'', req_ID = VStr ''1'', req_Method = ''initialize'',
         req_Params = VNil\<rparr>)) ''resources'' = VNil \<and>
   capabilities_of
     (resp_Result (handleInitialize_cmd (NewMCPServer ''CustomMCPServer'' ''1.0.0'')
        \<lparr>req_JSONRPC = ''2.0'', req_ID = VStr ''1'', req_Method = ''initialize'',
         req_Params = VNil\<rparr>)) ''resource'' =
     VMap [''subscribe'' \<mapsto> VBool True, ''listChanged'' \<mapsto> VBool True] \<and>
   resp_Result (handleInitialize_cmd (NewMCPServer ''CustomMCPServer'' ''1.0.0'')
        \<lparr>req_JSONRPC = ''2.0'', req_ID = VStr ''1'', req_Method = ''initialize'',
         req_Params = VNil\<rparr>) \<noteq> spec_advertisement ''CustomMCPServer'' ''1.0.0''"
proof -
  let ?r = "resp_Result (handleInitialize_cmd (NewMCPServer ''CustomMCPServer'' ''1.0.0'')
        \<lparr>req_JSONRPC = ''2.0'', req_ID = VStr ''1'', req_Method = ''initialize'',
         req_Params = VNil\<rparr>)"
  have a: "capabilities_of ?r ''resources'' = VNil"
    by (simp add: capabilities_of_def handleInitialize_cmd_def assert_map_def index_def)
  have b: "capabilities_of ?r ''resource'' =
             VMap [''subscribe'' \<mapsto> VBool True, ''listChanged'' \<mapsto> VBool True]"
    by (simp add: capabilities_of_def handleInitialize_cmd_def assert_map_def index_def)
  have "capabilities_of (spec_advertisement ''CustomMCPServer'' ''1.0.0'') ''resources'' \<noteq> VNil"
    by (simp add: spec_advertisement_resources)
  with a have c: "?r \<noteq> spec_advertisement ''CustomMCPServer'' ''1.0.0''"
    by metis
  from a b c show ?thesis by blast
qed

subsection \<open>The echo tool\<close>

text \<open>
  C6. Calling the registered tool \<open>echo\<close>: when \<open>arguments\<close> is an object whose
  \<open>message\<close> is a string \<open>m\<close>, the result is
  \<open>{content: [{type: "text", text: "Echo: " + m}]}\<close>, so \<open>"Echo: hi"\<close> for \<open>"hi"\<close>; when
  \<open>arguments\<close> is not an object the result is \<open>{error: "Invalid arguments"}\<close>; when it
  is an object whose \<open>message\<close> is missing or not a string the result is
  \<open>{error: "Message is required"}\<close>. In all three cases the reply has a result and no
  error object.
\<close>

theorem echo_contract:
  assumes "req_JSONRPC req = ''2.0''" and "req_Method req = ''tools/call''"
    and "req_Params req = VMap ps" and "ps ''name'' = Some (VStr ''echo'')"
    and "tools s ''echo'' = Some t"
  shows "resp_Error (HandleRequest s tks rks req) = None \<and>
         (\<forall>a m. index ps ''arguments'' = VMap a \<and> a ''message'' = Some (VStr m) \<longrightarrow>
            resp_Result (HandleRequest s tks rks req) =
              VMap [''content'' \<mapsto> VList [VMap [''type'' \<mapsto> VStr ''text'',
                                                    ''text'' \<mapsto> VStr (''Echo: '' @ m)]]]) \<and>
         ((\<forall>a. index ps ''arguments'' \<noteq> VMap a) \<longrightarrow>
            resp_Result (HandleRequest s tks rks req) =
              VMap [''error'' \<mapsto> VStr ''Invalid arguments'']) \<and>
         (\<forall>a. index ps ''arguments'' = VMap a \<and> (\<forall>m. a ''message'' \<noteq> Some (VStr m)) \<longrightarrow>
            resp_Result (HandleRequest s tks rks req) =
              VMap [''error'' \<mapsto> VStr ''Message is required''])"
proof -
  have "HandleRequest s tks rks req = handleToolsCall s req"
    using assms(1,2) by (simp add: HandleRequest_def)
  then have r: "resp_Result (HandleRequest s tks rks req) =
                  VMap (executeTool s ''echo'' (index ps ''arguments''))"
    and e: "resp_Error (HandleRequest s tks rks req) = None"
    using handleToolsCall_registered [OF assms(3-5)] by simp_all
  show ?thesis
    using e r executeTool_echo_ok [of "index ps ''arguments''" _ _ s]
          executeTool_echo_not_object [of "index ps ''arguments''" s]
          executeTool_echo_no_message [of "index ps ''arguments''" _ s]
    by simp
qed

theorem echo_contract_witness:
  "tools main_server ''echo'' = Some echo_tool \<and>
   resp_Result (HandleRequest main_server [''echo''] [''file:///example.txt'']
     \<lparr>req_JSONRPC = ''2.0'', req_ID = VStr ''1'', req_Method = ''tools/call'',
      req_Params = VMap [''name'' \<mapsto> VStr ''echo'',
                         ''arguments'' \<mapsto> VMap [''message'' \<mapsto> VStr ''hi'']]\<rparr>) =
     VMap [''content'' \<mapsto> VList [VMap [''type'' \<mapsto> VStr ''text'',
                                           ''text'' \<mapsto> VStr ''Echo: hi'']]] \<and>
   resp_Result (HandleRequest main_server [''echo''] [''file:///example.txt'']
     \<lparr>req_JSONRPC = ''2.0'', req_ID = VStr ''2'', req_Method = ''tools/call'',
      req_Params = VMap [''name'' \<mapsto> VStr ''echo'', ''arguments'' \<mapsto> VStr ''hi'']\<rparr>) =
     VMap [''error'' \<mapsto> VStr ''Invalid arguments''] \<and>
   resp_Result (HandleRequest main_server [''echo''] [''file:///example.txt'']
     \<lparr>req_JSONRPC = ''2.0'', req_ID = VStr ''3'', req_Method = ''tools/call'',
      req_Params = VMap [''name'' \<mapsto> VStr ''echo'',
                         ''arguments'' \<mapsto> VMap [''message'' \<mapsto> VBool True]]\<rparr>) =
     VMap [''error'' \<mapsto> VStr ''Message is required'']"
proof -
  have t: "tools main_server ''echo'' = Some echo_tool"
    by (simp add: main_server_tools)
  have 1: "resp_Result (HandleRequest main_server [''echo''] [''file:///example.txt'']
     \<lparr>req_JSONRPC = ''2.0'', req_ID = VStr ''1'', req_Method = ''tools/call'',
      req_Params = VMap [''name'' \<mapsto> VStr ''echo'',
                         ''arguments'' \<mapsto> VMap [''message'' \<mapsto> VStr ''hi'']]\<rparr>) =
     VMap [''content'' \<mapsto> VList [VMap [''type'' \<mapsto> VStr ''text'',
                                           ''text'' \<mapsto> VStr ''Echo: hi'']]]"
    using echo_contract
      [of "\<lparr>req_JSONRPC = ''2.0'', req_ID = VStr ''1'', req_Method = ''tools/call'',
            req_Params = VMap [''name'' \<mapsto> VStr ''echo'',
                               ''arguments'' \<mapsto> VMap [''message'' \<mapsto> VStr ''hi'']]\<rparr>"
          "[''name'' \<mapsto> VStr ''echo'',
            ''arguments'' \<mapsto> VMap [''message'' \<mapsto> VStr ''hi'']]"
          main_server echo_tool "[''echo'']" "[''file:///example.txt'']"] t
    by (simp add: index_def)
  have 2: "resp_Result (HandleRequest main_server [''echo''] [''file:///example.txt'']
     \<lparr>req_JSONRPC = ''2.0'', req_ID = VStr ''2'', req_Method = ''tools/call'',
      req_Params = VMap [''name'' \<mapsto> VStr ''echo'', ''arguments'' \<mapsto> VStr ''hi'']\<rparr>) =
     VMap [''error'' \<mapsto> VStr ''Invalid arguments'']"
    using echo_contract
      [of "\<lparr>req_JSONRPC = ''2.0'', req_ID = VStr ''2'', req_Method = ''tools/call'',
            req_Params = VMap [''name'' \<mapsto> VStr ''echo'', ''arguments'' \<mapsto> VStr ''hi'']\<rparr>"
          "[''name'' \<mapsto> VStr ''echo'', ''arguments'' \<mapsto> VStr ''hi'']"
          main_server echo_tool "[''echo'']" "[''file:///example.txt'']"] t
    by (simp add: index_def)
  have 3: "resp_Result (HandleRequest main_server [''echo''] [''file:///example.txt'']
     \<lparr>req_JSONRPC = ''2.0'', req_ID = VStr ''3'', req_Method = ''tools/call'',
      req_Params = VMap [''name'' \<mapsto> VStr ''echo'',
                         ''arguments'' \<mapsto> VMap [''message'' \<mapsto> VBool True]]\<rparr>) =
     VMap [''error'' \<mapsto> VStr ''Message is required'']"
    using echo_contract
      [of "\<lparr>req_JSONRPC = ''2.0'', req_ID = VStr ''3'', req_Method = ''tools/call'',
            req_Params = VMap [''name'' \<mapsto> VStr ''echo'',
                               ''arguments'' \<mapsto> VMap [''message'' \<mapsto> VBool True]]\<rparr>"
          "[''name'' \<mapsto> VStr ''echo'',
            ''arguments'' \<mapsto> VMap [''message'' \<mapsto> VBool True]]"
          main_server echo_tool "[''echo'']" "[''file:///example.txt'']"] t
    by (simp add: index_def)
  from t 1 2 3 show ?thesis by blast
qed

subsection \<open>Reading a resource\<close>

text \<open>
  C7. A \<open>resources/read\<close> request whose \<open>params\<close> is an object with a string \<open>uri\<close>
  that starts neither with \<open>file://\<close> nor with \<open>https://\<close> gets an error with code
  \<open>-32602\<close> and message \<open>"Invalid URI scheme"\<close>, and no result; \<open>ftp://x\<close> is such a
  URI.
\<close>

theorem resources_read_invalid_scheme:
  assumes "req_JSONRPC req = ''2.0''" and "req_Method req = ''resources/read''"
    and "req_Params req = VMap ps" and "ps ''uri'' = Some (VStr u)"
    and "\<not> prefix ''file://'' u" and "\<not> prefix ''https://'' u"
  shows "HandleRequest s tks rks req =
           \<lparr>resp_JSONRPC = ''2.0'', resp_ID = req_ID req, resp_Result = VNil,
            resp_Error = Some \<lparr>err_Code = - 32602, err_Message = ''Invalid URI scheme'',
                                err_Data = VNil\<rparr>\<rparr>"
  using assms(1,2) handleResourcesRead_rejected [OF assms(3-6)]
  by (simp add: HandleRequest_def)

theorem resources_read_invalid_scheme_witness:
  "\<not> prefix ''file://'' ''ftp://x'' \<and> \<not> prefix ''https://'' ''ftp://x'' \<and>
   HandleRequest main_server [''echo''] [''file:///example.txt'']
     \<lparr>req_JSONRPC = ''2.0'', req_ID = VStr ''1'', req_Method = ''resources/read'',
      req_Params = VMap [''uri'' \<mapsto> VStr ''ftp://x'']\<rparr> =
   \<lparr>resp_JSONRPC = ''2.0'', resp_ID = VStr ''1'', resp_Result = VNil,
    resp_Error = Some \<lparr>err_Code = - 32602, err_Message = ''Invalid URI scheme'',
                        err_Data = VNil\<rparr>\<rparr>"
  using resources_read_invalid_scheme
    [of "\<lparr>req_JSONRPC = ''2.0'', req_ID = VStr ''1'', req_Method = ''resources/read'',
          req_Params = VMap [''uri'' \<mapsto> VStr ''ftp://x'']\<rparr>"
        "[''uri'' \<mapsto> VStr ''ftp://x'']" "''ftp://x''"
        main_server "[''echo'']" "[''file:///example.txt'']"]
  by simp

text \<open>
  C8. A \<open>resources/read\<close> request with a string \<open>uri\<close> that starts with \<open>file://\<close> or
  with \<open>https://\<close> gets no error and the result \<open>{contents: [entry]}\<close> with one entry,
  whose \<open>uri\<close> is the request's, whose \<open>mimeType\<close> is \<open>text/plain\<close> and whose \<open>text\<close> is
  what \<open>readResource\<close> returns for the URI, a non-empty string.
\<close>

theorem resources_read_contents:
  assumes "req_JSONRPC req = ''2.0''" and "req_Method req = ''resources/read''"
    and "req_Params req = VMap ps" and "ps ''uri'' = Some (VStr u)"
    and "prefix ''file://'' u \<or> prefix ''https://'' u"
  shows "HandleRequest s tks rks req =
           \<lparr>resp_JSONRPC = ''2.0'', resp_ID = req_ID req,
            resp_Result = VMap
              [''contents'' \<mapsto> VList
                 [VMap [''uri'' \<mapsto> VStr u,
                        ''mimeType'' \<mapsto> VStr ''text/plain'',
                        ''text'' \<mapsto> VStr (readResource s u)]]],
            resp_Error = None\<rparr> \<and>
         readResource s u \<noteq> []"
proof -
  have "HandleRequest s tks rks req = handleResourcesRead s req"
    using assms(1,2) by (simp add: HandleRequest_def)
  moreover have "readResource s u =
       (if prefix ''file://'' u then ''Content of '' @ u else ''Web content of '' @ u)"
    using assms(5) by (auto simp: readResource_def HasPrefix_iff_prefix)
  ultimately show ?thesis
    using handleResourcesRead_allowed [OF assms(3-5), of s] by simp
qed

theorem resources_read_contents_witness:
  "(prefix ''file://'' ''file:///a.txt'' \<or> prefix ''https://'' ''file:///a.txt'') \<and>
   HandleRequest main_server [''echo''] [''file:///example.txt'']
     \<lparr>req_JSONRPC = ''2.0'', req_ID = VStr ''1'', req_Method = ''resources/read'',
      req_Params = VMap [''uri'' \<mapsto> VStr ''file:///a.txt'']\<rparr> =
   \<lparr>resp_JSONRPC = ''2.0'', resp_ID = VStr ''1'',
    resp_Result = VMap
      [''contents'' \<mapsto> VList
         [VMap [''uri'' \<mapsto> VStr ''file:///a.txt'',
                ''mimeType'' \<mapsto> VStr ''text/plain'',
                ''text'' \<mapsto> VStr ''Content of file:///a.txt'']]],
    resp_Error = None\<rparr>"
  using resources_read_contents
    [of "\<lparr>req_JSONRPC = ''2.0'', req_ID = VStr ''1'', req_Method = ''resources/read'',
          req_Params = VMap [''uri'' \<mapsto> VStr ''file:///a.txt'']\<rparr>"
        "[''uri'' \<mapsto> VStr ''file:///a.txt'']" "''file:///a.txt''"
        main_server "[''echo'']" "[''file:///example.txt'']"]
  by (simp add: readResource_def HasPrefix_def)

text \<open>
  C10. The reply to such a \<open>resources/read\<close> request is the same on every server,
  whatever its registries hold (and whatever its name is): it has no error, and its
  text is \<open>"Content of "\<close> or \<open>"Web content of "\<close> followed by the URI, a function of
  the URI alone. A server with no resource registered answers as one with resources.
\<close>

theorem resources_read_ignores_registry:
  assumes "req_JSONRPC req = ''2.0''" and "req_Method req = ''resources/read''"
    and "req_Params req = VMap ps" and "ps ''uri'' = Some (VStr u)"
    and "prefix ''file://'' u \<or> prefix ''https://'' u"
  shows "HandleRequest s tks rks req = HandleRequest s' tks' rks' req \<and>
         resp_Error (HandleRequest s tks rks req) = None \<and>
         resp_Result (HandleRequest s tks rks req) =
           VMap [''contents'' \<mapsto> VList
                   [VMap [''uri'' \<mapsto> VStr u,
                          ''mimeType'' \<mapsto> VStr ''text/plain'',
                          ''text'' \<mapsto> VStr (if prefix ''file://'' u then ''Content of '' @ u
                                                 else ''Web content of '' @ u)]]]"
proof -
  have "HandleRequest s tks rks req = handleResourcesRead s req"
    and "HandleRequest s' tks' rks' req = handleResourcesRead s' req"
    using assms(1,2) by (simp_all add: HandleRequest_def)
  then show ?thesis
    using handleResourcesRead_allowed [OF assms(3-5), of s]
          handleResourcesRead_allowed [OF assms(3-5), of s']
    by simp
qed

theorem resources_read_ignores_registry_witness:
  "(prefix ''file://'' ''https://example.com/a'' \<or> prefix ''https://'' ''https://example.com/a'') \<and>
   resources (NewMCPServer ''CustomMCPServer'' ''1.0.0'') = Map.empty \<and>
   resources main_server \<noteq> Map.empty \<and>
   HandleRequest (NewMCPServer ''CustomMCPServer'' ''1.0.0'') [] []
     \<lparr>req_JSONRPC = ''2.0'', req_ID = VStr ''1'', req_Method = ''resources/read'',
      req_Params = VMap [''uri'' \<mapsto> VStr ''https://example.com/a'']\<rparr> =
   HandleRequest main_server [''echo''] [''file:///example.txt'']
     \<lparr>req_JSONRPC = ''2.0'', req_ID = VStr ''1'', req_Method = ''resources/read'',
      req_Params = VMap [''uri'' \<mapsto> VStr ''https://example.com/a'']\<rparr> \<and>
   resp_Result (HandleRequest (NewMCPServer ''CustomMCPServer'' ''1.0.0'') [] []
     \<lparr>req_JSONRPC = ''2.0'', req_ID = VStr ''1'', req_Method = ''resources/read'',
      req_Params = VMap [''uri'' \<mapsto> VStr ''https://example.com/a'']\<rparr>) =
     VMap [''contents'' \<mapsto> VList
             [VMap [''uri'' \<mapsto> VStr ''https://example.com/a'',
                    ''mimeType'' \<mapsto> VStr ''text/plain'',
                    ''text'' \<mapsto> VStr ''Web content of https://example.com/a'']]]"
proof -
  have e: "resources (NewMCPServer ''CustomMCPServer'' ''1.0.0'') = Map.empty"
    by (simp add: NewMCPServer_def)
  have n: "resources main_server \<noteq> Map.empty"
    by (simp add: main_server_resources)
  have p: "prefix ''file://'' ''https://example.com/a'' \<or>
           prefix ''https://'' ''https://example.com/a''"
    by simp
  note inst = resources_read_ignores_registry
      [of "\<lparr>req_JSONRPC = ''2.0'', req_ID = VStr ''1'', req_Method = ''resources/read'',
            req_Params = VMap [''uri'' \<mapsto> VStr ''https://example.com/a'']\<rparr>"
          "[''uri'' \<mapsto> VStr ''https://example.com/a'']" "''https://example.com/a''"
          "NewMCPServer ''CustomMCPServer'' ''1.0.0''" "[]" "[]"
          main_server "[''echo'']" "[''file:///example.txt'']", OF _ _ _ _ p]
  have c: "HandleRequest (NewMCPServer ''CustomMCPServer'' ''1.0.0'') [] []
       \<lparr>req_JSONRPC = ''2.0'', req_ID = VStr ''1'', req_Method = ''resources/read'',
        req_Params = VMap [''uri'' \<mapsto> VStr ''https://example.com/a'']\<rparr> =
     HandleRequest main_server [''echo''] [''file:///example.txt'']
       \<lparr>req_JSONRPC = ''2.0'', req_ID = VStr ''1'', req_Method = ''resources/read'',
        req_Params = VMap [''uri'' \<mapsto> VStr ''https://example.com/a'']\<rparr>"
    by (rule inst [THEN conjunct1]) simp_all
  have d: "resp_Result (HandleRequest (NewMCPServer ''CustomMCPServer'' ''1.0.0'') [] []
       \<lparr>req_JSONRPC = ''2.0'', req_ID = VStr ''1'', req_Method = ''resources/read'',
        req_Params = VMap [''uri'' \<mapsto> VStr ''https://example.com/a'']\<rparr>) =
       VMap [''contents'' \<mapsto> VList
             [VMap [''uri'' \<mapsto> VStr ''https://example.com/a'',
                    ''mimeType'' \<mapsto> VStr ''text/plain'',
                    ''text'' \<mapsto> VStr ''Web content of https://example.com/a'']]]"
    using inst [THEN conjunct2, THEN conjunct2] by simp
  from p e n c d show ?thesis by blast
qed

subsection \<open>The envelope\<close>

text \<open>
  C9. Whatever the server, the request and the orders the loops follow, the reply of
  \<open>HandleRequest\<close> carries the request's id unchanged, and one of its two outcome
  fields is set and the other is not: either \<open>Result\<close> is non-nil or \<open>Error\<close> is.
\<close>

theorem HandleRequest_id_and_one_outcome:
  "resp_ID (HandleRequest s tks rks req) = req_ID req \<and>
   (resp_Result (HandleRequest s tks rks req) \<noteq> VNil) \<noteq>
   (resp_Error (HandleRequest s tks rks req) \<noteq> None)"
  using handleToolsCall_envelope [of s req] handleResourcesRead_envelope [of s req]
  by (simp add: HandleRequest_def handleInitialize_def handleToolsList_def
                handleResourcesList_def)

end
